theory Spec2Isabelle
  imports Main
begin

section \<open>The container handle of steps/container.py\<close>

text \<open>
  The module drives a container engine through the client object \<open>d\<close> and keeps one
  handle (\<open>Container\<close>) per test container. The embedding below follows the Python
  text method by method. What the module does beyond computing values is explicit:
  \<^item> the handle's attributes, the engine requests issued, the seconds slept, the files
    written and the records sent to \<open>logger.error\<close> form the state;
  \<^item> every exception is a value of \<open>exn\<close>, and an operation returns \<open>Inl e\<close> together
    with the state reached when it raised;
  \<^item> the engine, the file system, \<open>json.loads\<close>, \<open>int\<close> and the introspected parameter
    names of the client library are not part of the module: their answers are the
    fields of the record \<open>externals\<close>, and the theorems speak about every such answer.
  Strings are Python \<open>str\<close> values whose characters are code points below 256; a
  \<open>char\<close> stands for the character with its code point. Values the engine returns as
  text or bytes (logs, command output) are represented by the text \<open>str()\<close> gives for
  them. Records sent to the logger at the levels \<open>info\<close> and \<open>debug\<close> are not kept, but
  an exception raised while their arguments are evaluated is.
\<close>

subsection \<open>Exceptions and values\<close>

datatype exn =
    ExecException string "string option"
  | AttributeError string
  | TypeError string
  | ValueError string
  | OSError string
  | EngineError string

text \<open>
  \<open>ExecException(message, output=None)\<close>: the two attributes of the exception. The other
  constructors carry the message of a built-in exception (written without its quotation
  marks; \<open>OSError\<close> stands for its subclasses too) or of an error of the engine client.
\<close>

fun exn_message :: "exn \<Rightarrow> string" where
  "exn_message (ExecException m out) = m"
| "exn_message (AttributeError m) = m"
| "exn_message (TypeError m) = m"
| "exn_message (ValueError m) = m"
| "exn_message (OSError m) = m"
| "exn_message (EngineError m) = m"

fun exn_output :: "exn \<Rightarrow> string option" where
  "exn_output (ExecException m out) = out"
| "exn_output (AttributeError m) = None"
| "exn_output (TypeError m) = None"
| "exn_output (ValueError m) = None"
| "exn_output (OSError m) = None"
| "exn_output (EngineError m) = None"

datatype pyval =
    PNone
  | PBool bool
  | PInt int
  | PStr string
  | PList "pyval list"
  | PDict "string \<Rightarrow> pyval option"

type_synonym pydict = "string \<Rightarrow> pyval option"

subsection \<open>String operations of Python used by the module\<close>

text \<open>\<open>s.split(sep)\<close> for a separator of one character; \<open>''''.split(',')\<close> is \<open>['''']\<close>.\<close>

fun split_on :: "char \<Rightarrow> string \<Rightarrow> string list" where
  "split_on sep [] = [[]]"
| "split_on sep (c # cs) =
     (if c = sep then [] # split_on sep cs
      else (case split_on sep cs of
              [] \<Rightarrow> [[c]]
            | w # ws \<Rightarrow> (c # w) # ws))"

text \<open>\<open>s.split(sep, 1)\<close>: at most one split, at the first separator.\<close>

definition split_once :: "char \<Rightarrow> string \<Rightarrow> string list" where
  "split_once sep s =
     (if sep \<in> set s
      then [takeWhile (\<lambda>c. c \<noteq> sep) s, tl (dropWhile (\<lambda>c. c \<noteq> sep) s)]
      else [s])"

text \<open>\<open>str(n)\<close> for an integer, as \<open>%s\<close> renders it.\<close>

fun str_nat :: "nat \<Rightarrow> string" where
  "str_nat n =
     (if n < 10 then [''0123456789'' ! n]
      else str_nat (n div 10) @ [''0123456789'' ! (n mod 10)])"

definition str_int :: "int \<Rightarrow> string" where
  "str_int i = (if i < 0 then CHR ''-'' # str_nat (nat (- i)) else str_nat (nat i))"

text \<open>
  \<open>re.match(r'[\w\ ]', c)\<close> on one character: a word character or a space. The pattern
  is a \<open>str\<close>, so \<open>\w\<close> is the Unicode class: below 256 it holds the ASCII digits,
  letters and underscore, and 71 characters from 170 on (the ordinal indicators, the
  superscript digits, the micro sign, the vulgar fractions and the accented letters,
  without the multiplication and division signs).
\<close>

definition word_char :: "char \<Rightarrow> bool" where
  "word_char c =
     (let n = (of_char c :: nat)
      in (48 \<le> n \<and> n \<le> 57) \<or> (65 \<le> n \<and> n \<le> 90) \<or> n = 95 \<or> (97 \<le> n \<and> n \<le> 122) \<or>
         n = 170 \<or> n = 178 \<or> n = 179 \<or> n = 181 \<or> n = 185 \<or> n = 186 \<or>
         (188 \<le> n \<and> n \<le> 190) \<or> (192 \<le> n \<and> n \<le> 214) \<or> (216 \<le> n \<and> n \<le> 246) \<or>
         (248 \<le> n \<and> n \<le> 255))"

definition re_match_word_or_space :: "char \<Rightarrow> bool" where
  "re_match_word_or_space c = (word_char c \<or> c = CHR '' '')"

text \<open>\<open>s.replace(" ", "_")\<close>.\<close>

definition replace_space :: "string \<Rightarrow> string" where
  "replace_space s = map (\<lambda>c. if c = CHR '' '' then CHR ''_'' else c) s"

subsection \<open>The handle, the engine's answers and the state\<close>

text \<open>
  The descriptor \<open>d.create_container\<close> returns: a dictionary with the key \<open>Id\<close>, here the
  field \<open>Id'\<close> (\<open>Id\<close> is the identity relation of HOL).
\<close>

record descriptor =
  Id' :: string

text \<open>What the module reads of \<open>d.inspect_container\<close>'s answer.\<close>

record inspection =
  State_Running :: bool
  NetworkSettings_IPAddress :: string

text \<open>
  The attributes \<open>__init__\<close> assigns. \<open>remove_image\<close> is the instance attribute of
  line 58, a boolean; the method of the same name (line 184) is \<open>remove_image_method\<close>
  below.
\<close>

record Container =
  image_id :: string
  container :: "descriptor option"
  name :: "string option"
  ip_address :: "string option"
  output_dir :: string
  save_output :: bool
  remove_image :: bool
  kwargs :: pydict
  running :: bool
  volumes :: "string list option"
  environ :: "string \<Rightarrow> string option"
  entrypoint :: "string option"

text \<open>The arguments of one \<open>d.create_container\<close> request.\<close>

record create_args =
  arg_image :: string
  arg_detach :: bool
  arg_entrypoint :: "string option"
  arg_volumes :: "string list option"
  arg_host_config :: pydict
  arg_kwargs :: pydict

datatype event =
    CreateContainer create_args
  | Start descriptor
  | InspectContainer string
  | Kill descriptor
  | RemoveContainer descriptor
  | Logs string
  | ExecCreate "descriptor option" string
  | ExecStart string bool
  | ExecInspect string
  | RemoveImage string bool
  | Sleep nat

text \<open>
  The answers of everything the module calls but does not define. An engine request
  answers with an exception or a value; removal and exec inspection are asked
  repeatedly, so their answer depends on how many such requests came before. The file
  system answers \<open>os.makedirs\<close>, \<open>open(path, 'w')\<close> and the write of \<open>print\<close> (with the
  close of the file) for a path with an exception or with success.
\<close>

record externals =
  create_container_answer :: "exn + descriptor"
  create_host_config_answer :: "exn option"
  start_answer :: "exn option"
  inspect_container_answer :: "exn + inspection"
  kill_answer :: "exn option"
  remove_container_answer :: "nat \<Rightarrow> exn option"
  logs_answer :: "exn + string"
  exec_create_answer :: "exn + string"
  exec_start_answer :: "exn + string"
  exec_inspect_answer :: "nat \<Rightarrow> exn + int option"
  remove_image_answer :: "exn option"
  makedirs_answer :: "string \<Rightarrow> exn option"
  open_answer :: "string \<Rightarrow> exn option"
  write_answer :: "string \<Rightarrow> exn option"
  json_loads :: "string \<Rightarrow> exn + pydict"
  py_int :: "pyval \<Rightarrow> int option"
  create_host_config_varnames :: "string list"

record state =
  self :: Container
  events :: "event list"
  files :: "string \<Rightarrow> string option"
  dirs :: "string set"
  logged_errors :: "string list"

subsection \<open>Sequencing with exceptions\<close>

type_synonym 'a action = "state \<Rightarrow> (exn + 'a) \<times> state"

definition ret :: "'a \<Rightarrow> 'a action" where
  "ret x = (\<lambda>s. (Inr x, s))"

definition raise :: "exn \<Rightarrow> 'a action" where
  "raise e = (\<lambda>s. (Inl e, s))"

text \<open>\<open>m; f\<close>: the second statement runs only when the first did not raise.\<close>

definition bnd :: "'a action \<Rightarrow> ('a \<Rightarrow> 'b action) \<Rightarrow> 'b action" where
  "bnd m f = (\<lambda>s. case m s of (Inl e, s') \<Rightarrow> (Inl e, s') | (Inr x, s') \<Rightarrow> f x s')"

text \<open>\<open>try: m except Exception as e: h e\<close>.\<close>

definition try_except :: "'a action \<Rightarrow> (exn \<Rightarrow> 'a action) \<Rightarrow> 'a action" where
  "try_except m h = (\<lambda>s. case m s of (Inl e, s') \<Rightarrow> h e s' | (Inr x, s') \<Rightarrow> (Inr x, s'))"

definition modify_self :: "(Container \<Rightarrow> Container) \<Rightarrow> unit action" where
  "modify_self f = (\<lambda>s. (Inr (), s\<lparr>self := f (self s)\<rparr>))"

definition issue :: "event \<Rightarrow> unit action" where
  "issue ev = (\<lambda>s. (Inr (), s\<lparr>events := events s @ [ev]\<rparr>))"

definition answer :: "exn + 'a \<Rightarrow> 'a action" where
  "answer r = (case r of Inl e \<Rightarrow> raise e | Inr x \<Rightarrow> ret x)"

definition answer_unit :: "exn option \<Rightarrow> unit action" where
  "answer_unit r = (case r of Some e \<Rightarrow> raise e | None \<Rightarrow> ret ())"

definition logger_error :: "string \<Rightarrow> unit action" where
  "logger_error msg = (\<lambda>s. (Inr (), s\<lparr>logged_errors := logged_errors s @ [msg]\<rparr>))"

definition time_sleep :: "nat \<Rightarrow> unit action" where
  "time_sleep n = issue (Sleep n)"

subsection \<open>Construction (lines 51 to 81)\<close>

text \<open>Lines 67 to 70, the body of the first \<open>try\<close>.\<close>

definition volumes_from_env :: "(string \<Rightarrow> string option) \<Rightarrow> unit action" where
  "volumes_from_env os_environ =
     (case os_environ ''CTF_DOCKER_VOLUMES'' of
        None \<Rightarrow> ret ()
      | Some v \<Rightarrow>
          bnd (modify_self (\<lambda>h. h\<lparr>volumes := (if volumes h = None then Some [] else None)\<rparr>))
            (\<lambda>_ s. case volumes (self s) of
                      None \<Rightarrow> raise (AttributeError ''NoneType object has no attribute extend'') s
                    | Some vs \<Rightarrow>
                        modify_self (\<lambda>h. h\<lparr>volumes := Some (vs @ split_on CHR '','' v)\<rparr>) s))"

text \<open>Lines 77 to 79, the loop of the second \<open>try\<close>: it stops at the first exception.\<close>

fun environ_loop :: "string list \<Rightarrow> unit action" where
  "environ_loop [] = ret ()"
| "environ_loop (variable # rest) =
     (case split_once CHR ''='' variable of
        [n, v] \<Rightarrow> bnd (modify_self (\<lambda>h. h\<lparr>environ := (environ h)(n \<mapsto> v)\<rparr>))
                    (\<lambda>_. environ_loop rest)
      | _ \<Rightarrow> raise (ValueError ''not enough values to unpack (expected 2, got 1)''))"

definition environ_from_env :: "(string \<Rightarrow> string option) \<Rightarrow> unit action" where
  "environ_from_env os_environ =
     (case os_environ ''CTF_DOCKER_ENV'' of
        None \<Rightarrow> ret ()
      | Some v \<Rightarrow> environ_loop (split_on CHR '','' v))"

definition Container_init ::
  "(string \<Rightarrow> string option) \<Rightarrow> string \<Rightarrow> string option \<Rightarrow> bool \<Rightarrow> string \<Rightarrow> bool \<Rightarrow>
   string list option \<Rightarrow> string option \<Rightarrow> pydict \<Rightarrow> unit action" where
  "Container_init os_environ image_id' name' remove_image' output_dir' save_output' volumes'
     entrypoint' kwargs' =
     bnd (modify_self (\<lambda>_.
            \<lparr>image_id = image_id', container = None, name = name', ip_address = None,
             output_dir = output_dir', save_output = save_output',
             remove_image = remove_image', kwargs = kwargs', running = False,
             volumes = volumes', environ = Map.empty, entrypoint = entrypoint'\<rparr>))
       (\<lambda>_. bnd (try_except (volumes_from_env os_environ)
                    (\<lambda>e. logger_error (''Cannot parse CTF_DOCKER_VOLUME variable '' @ exn_message e)))
          (\<lambda>_. try_except (environ_from_env os_environ)
                    (\<lambda>e. logger_error (''Cannot parse CTF_DOCKER_ENV variable, '' @ exn_message e))))"

subsection \<open>Creation and start (lines 91 to 97 and 204 to 255)\<close>

text \<open>\<open>inspect\<close> (lines 174 to 176): nothing is asked, and \<open>None\<close> returned, without a container.\<close>

definition inspect :: "externals \<Rightarrow> inspection option action" where
  "inspect d =
     (\<lambda>s. case container (self s) of
            None \<Rightarrow> ret None s
          | Some c \<Rightarrow>
              bnd (issue (InspectContainer (Id' c)))
                (\<lambda>_. bnd (answer (inspect_container_answer d)) (\<lambda>i. ret (Some i))) s)"

text \<open>\<open>volume.split(":")[0]\<close>.\<close>

definition mount_point :: "string \<Rightarrow> string" where
  "mount_point volume = (case split_on CHR '':'' volume of [] \<Rightarrow> [] | w # ws \<Rightarrow> w)"

text \<open>
  \<open>kwargs_env.update(m)\<close> on the value bound to \<open>kwargs_env\<close>: only a dictionary has the
  method.
\<close>

definition dict_update :: "pyval \<Rightarrow> pydict \<Rightarrow> pyval action" where
  "dict_update v m =
     (case v of
        PDict e \<Rightarrow> ret (PDict (e ++ m))
      | _ \<Rightarrow> raise (AttributeError ''object has no attribute update''))"

text \<open>
  Lines 220 to 222: the environment of the keyword arguments, updated with
  \<open>self.environ\<close>. In Python the update also changes the dictionary object the caller
  passed under \<open>environment\<close>; the keyword arguments here are values, and that sharing
  is not part of the model.
\<close>

definition merge_environ :: "Container \<Rightarrow> pydict \<Rightarrow> pydict action" where
  "merge_environ h kw =
     (let kwargs_env = (case kw ''environment'' of Some v \<Rightarrow> v | None \<Rightarrow> PDict Map.empty)
      in bnd (dict_update kwargs_env (map_option PStr \<circ> environ h))
           (\<lambda>kwargs_env'. ret (kw(''environment'' \<mapsto> kwargs_env'))))"

text \<open>
  Lines 226 to 231. The blob is "an environment dict packed into JSON" (line 224):
  \<open>json.loads\<close> raises or answers with a dictionary, which is the argument of
  \<open>update\<close>. A blob that decodes to a value of another shape is outside the type of
  \<open>json_loads\<close>.
\<close>

definition merge_env_json :: "externals \<Rightarrow> pydict \<Rightarrow> pydict action" where
  "merge_env_json d kw =
     (case kw ''env_json'' of
        None \<Rightarrow> ret kw
      | Some j \<Rightarrow>
          bnd (case j of
                 PStr text \<Rightarrow> answer (json_loads d text)
               | _ \<Rightarrow> raise (TypeError ''the JSON object must be str, bytes or bytearray''))
            (\<lambda>env.
               let kwargs_env =
                     (case kw ''environment'' of Some v \<Rightarrow> v | None \<Rightarrow> PDict Map.empty)
               in bnd (dict_update kwargs_env env)
                    (\<lambda>kwargs_env'.
                       ret ((kw(''environment'' \<mapsto> kwargs_env'))(''env_json'' := None)))))"

text \<open>
  Lines 240 to 246: each recognised name found in the keyword arguments is popped into
  the host arguments, as an integer when \<open>int\<close> accepts the value.
\<close>

fun split_host_args ::
  "(pyval \<Rightarrow> int option) \<Rightarrow> string list \<Rightarrow> pydict \<times> pydict \<Rightarrow> pydict \<times> pydict" where
  "split_host_args to_int [] (host_args, kw) = (host_args, kw)"
| "split_host_args to_int (arg # names) (host_args, kw) =
     (case kw arg of
        None \<Rightarrow> split_host_args to_int names (host_args, kw)
      | Some v \<Rightarrow>
          split_host_args to_int names
            (host_args(arg \<mapsto> (case to_int v of Some i \<Rightarrow> PInt i | None \<Rightarrow> v)),
             kw(arg := None)))"

definition create_container :: "externals \<Rightarrow> pydict \<Rightarrow> unit action" where
  "create_container d kw =
     (\<lambda>s.
        if running (self s) then ret () s
        else
          (let h = self s;
               volume_mount_points =
                 (case volumes h of Some (v # vs) \<Rightarrow> Some (map mount_point (v # vs)) | _ \<Rightarrow> None);
               host_args =
                 (case volumes h of
                    Some (v # vs) \<Rightarrow> [''binds'' \<mapsto> PList (map PStr (v # vs))]
                  | _ \<Rightarrow> Map.empty)
           in bnd (merge_environ h kw)
                (\<lambda>kw1. bnd (merge_env_json d kw1)
                   (\<lambda>kw2.
                      case split_host_args (py_int d)
                             (create_host_config_varnames d @
                                [''cpu_quota'', ''cpu_period'', ''mem_limit''])
                             (host_args, kw2) of
                        (host_args', kw3) \<Rightarrow>
                          (case kw3 ''environment'' of
                             None \<Rightarrow> raise (AttributeError ''NoneType object has no attribute items'')
                           | Some env \<Rightarrow>
                               bnd (answer_unit (create_host_config_answer d))
                                 (\<lambda>_. if list_ex (\<lambda>k. kw3 k \<noteq> None)
                                            [''image'', ''detach'', ''entrypoint'', ''volumes'',
                                             ''host_config'']
                                       then raise (TypeError
                                              ''got multiple values for keyword argument'')
                                       else
                                         bnd (issue (CreateContainer
                                                \<lparr>arg_image = image_id h, arg_detach = True,
                                                 arg_entrypoint = entrypoint h,
                                                 arg_volumes = volume_mount_points,
                                                 arg_host_config = host_args',
                                                 arg_kwargs = kw3\<rparr>))
                                           (\<lambda>_. bnd (answer (create_container_answer d))
                                              (\<lambda>c. modify_self
                                                     (\<lambda>h. h\<lparr>container := Some c\<rparr>)))))))) s)"

definition start :: "externals \<Rightarrow> pydict \<Rightarrow> unit action" where
  "start d kw =
     bnd (create_container d kw)
       (\<lambda>_ s. case container (self s) of
                 None \<Rightarrow> raise (AttributeError ''NoneType object has no attribute get'') s
               | Some c \<Rightarrow>
                   bnd (issue (Start c))
                     (\<lambda>_. bnd (answer_unit (start_answer d))
                        (\<lambda>_. bnd (modify_self (\<lambda>h. h\<lparr>running := True\<rparr>))
                           (\<lambda>_. bnd (inspect d)
                              (\<lambda>i. case i of
                                     None \<Rightarrow> raise (TypeError ''NoneType object is not subscriptable'')
                                   | Some ins \<Rightarrow>
                                       modify_self
                                         (\<lambda>h. h\<lparr>ip_address :=
                                                   Some (NetworkSettings_IPAddress ins)\<rparr>))))) s)"

subsection \<open>Removal and stop (lines 99 to 139)\<close>

fun is_RemoveContainer :: "event \<Rightarrow> bool" where
  "is_RemoveContainer (RemoveContainer c) = True"
| "is_RemoveContainer _ = False"

fun is_RemoveImage :: "event \<Rightarrow> bool" where
  "is_RemoveImage (RemoveImage i f) = True"
| "is_RemoveImage _ = False"

fun is_ExecInspect :: "event \<Rightarrow> bool" where
  "is_ExecInspect (ExecInspect i) = True"
| "is_ExecInspect _ = False"

text \<open>\<open>d.remove_container(self.container)\<close>: the answer to a removal request.\<close>

definition d_remove_container :: "externals \<Rightarrow> descriptor \<Rightarrow> unit action" where
  "d_remove_container d c =
     (\<lambda>s. bnd (issue (RemoveContainer c))
            (\<lambda>_. answer_unit
                    (remove_container_answer d (length (filter is_RemoveContainer (events s))))) s)"

text \<open>
  \<open>_remove_container\<close> (lines 99 to 112). The recursive call stands inside the handler
  of the bare \<open>except\<close>, so an exception of a later attempt is not caught again by an
  earlier one; the bare \<open>raise\<close> raises the exception being handled.
\<close>

function remove_container :: "externals \<Rightarrow> int \<Rightarrow> unit action" where
  "remove_container d number s =
     (case container (self s) of
        None \<Rightarrow> (Inl (TypeError ''NoneType object is not subscriptable''), s)
      | Some c \<Rightarrow>
          (case d_remove_container d c s of
             (Inr u, s1) \<Rightarrow> (Inr (), s1)
           | (Inl e, s1) \<Rightarrow>
               if number > 3 then (Inl e, s1)
               else (case time_sleep 20 s1 of
                       (r, s2) \<Rightarrow> remove_container d (number + 1) s2)))"
  by pat_completeness auto
termination
  by (relation "measure (\<lambda>(d, number, s). nat (4 - number))") auto

text \<open>Line 125: the characters of the name that match, with spaces replaced.\<close>

definition sanitize :: "string \<Rightarrow> string" where
  "sanitize nm = replace_space (filter re_match_word_or_space nm)"

text \<open>
  \<open>os.path.exists(p)\<close> on the directories and files of the state (the empty path never
  exists), and \<open>os.makedirs(p)\<close>, which raises \<open>FileNotFoundError\<close> for the empty path.
\<close>

definition path_exists :: "state \<Rightarrow> string \<Rightarrow> bool" where
  "path_exists s p = (p \<noteq> [] \<and> (p \<in> dirs s \<or> files s p \<noteq> None))"

definition makedirs_result :: "externals \<Rightarrow> string \<Rightarrow> exn option" where
  "makedirs_result d p =
     (if p = [] then Some (OSError ''No such file or directory'') else makedirs_answer d p)"

definition os_makedirs :: "externals \<Rightarrow> string \<Rightarrow> unit action" where
  "os_makedirs d p =
     bnd (answer_unit (makedirs_result d p))
       (\<lambda>_ t. (Inr (), t\<lparr>dirs := insert p (dirs t)\<rparr>))"

text \<open>\<open>open(path, 'w')\<close> creates or empties the file.\<close>

definition open_w :: "externals \<Rightarrow> string \<Rightarrow> unit action" where
  "open_w d path =
     bnd (answer_unit (open_answer d path))
       (\<lambda>_ t. (Inr (), t\<lparr>files := (files t)(path \<mapsto> [])\<rparr>))"

text \<open>\<open>print(x, file=f)\<close> writes \<open>str(x)\<close> and a newline.\<close>

definition print_to :: "externals \<Rightarrow> string \<Rightarrow> string \<Rightarrow> unit action" where
  "print_to d path text =
     bnd (answer_unit (write_answer d path))
       (\<lambda>_ t. (Inr (), t\<lparr>files := (files t)(path \<mapsto> text @ [CHR 0x0A])\<rparr>))"

text \<open>
  Lines 120 to 123, the value \<open>stop\<close> binds to \<open>self.name\<close>, and lines 125 and 126, the
  path computed from it, for the handle as it is when \<open>stop\<close> is called.
\<close>

definition log_name :: "Container \<Rightarrow> descriptor \<Rightarrow> string" where
  "log_name h c =
     (case name h of
        Some (x # xs) \<Rightarrow> (x # xs) @ ''_'' @ Id' c
      | _ \<Rightarrow> Id' c)"

definition out_path :: "Container \<Rightarrow> descriptor \<Rightarrow> string" where
  "out_path h c = output_dir h @ ''/'' @ sanitize (log_name h c) @ ''.txt''"

text \<open>
  Lines 119 to 130. The file is opened, and so created or emptied, before the logs are
  asked for.
\<close>

definition save_logs :: "externals \<Rightarrow> unit action" where
  "save_logs d =
     (\<lambda>s. case container (self s) of
            None \<Rightarrow> raise (AttributeError ''NoneType object has no attribute get'') s
          | Some c \<Rightarrow>
              (let new_name = log_name (self s) c;
                   path = out_path (self s) c
               in bnd (modify_self (\<lambda>h. h\<lparr>name := Some new_name\<rparr>))
                    (\<lambda>_. bnd (\<lambda>t. if path_exists t (output_dir (self t)) then ret () t
                                   else os_makedirs d (output_dir (self t)) t)
                       (\<lambda>_. bnd (open_w d path)
                          (\<lambda>_. bnd (issue (Logs (Id' c)))
                             (\<lambda>_. bnd (answer (logs_answer d))
                                (\<lambda>text. print_to d path text))))) s))"

text \<open>Lines 132 to 139, the second block of \<open>stop\<close>.\<close>

definition teardown :: "externals \<Rightarrow> unit action" where
  "teardown d =
     (\<lambda>s. case container (self s) of
            None \<Rightarrow> ret () s
          | Some c \<Rightarrow>
              bnd (inspect d)
                (\<lambda>i. case i of
                       None \<Rightarrow> raise (TypeError ''NoneType object is not subscriptable'')
                     | Some ins \<Rightarrow>
                         bnd (if State_Running ins
                              then bnd (issue (Kill c)) (\<lambda>_. answer_unit (kill_answer d))
                              else ret ())
                           (\<lambda>_. bnd (modify_self (\<lambda>h. h\<lparr>running := False\<rparr>))
                              (\<lambda>_. bnd (remove_container d 1)
                                 (\<lambda>_. modify_self (\<lambda>h. h\<lparr>container := None\<rparr>))))) s)"

definition stop :: "externals \<Rightarrow> unit action" where
  "stop d =
     bnd (\<lambda>s. if running (self s) \<and> save_output (self s) then save_logs d s else ret () s)
       (\<lambda>_. teardown d)"

subsection \<open>Command execution (lines 149 to 172)\<close>

text \<open>\<open>d.exec_inspect(inst)['ExitCode']\<close>: \<open>None\<close> while the exit code is unknown.\<close>

definition d_exec_inspect :: "externals \<Rightarrow> string \<Rightarrow> int option action" where
  "d_exec_inspect d inst =
     (\<lambda>s. bnd (issue (ExecInspect inst))
            (\<lambda>_. answer (exec_inspect_answer d (length (filter is_ExecInspect (events s))))) s)"

text \<open>The \<open>while\<close> loop of lines 162 to 167, entered with \<open>count\<close> and \<open>retcode\<close>.\<close>

function poll_loop ::
  "externals \<Rightarrow> string \<Rightarrow> string \<Rightarrow> string \<Rightarrow> int \<Rightarrow> int option \<Rightarrow> int action" where
  "poll_loop d cmd inst output count retcode s =
     (case retcode of
        Some rc \<Rightarrow> (Inr rc, s)
      | None \<Rightarrow>
          (case d_exec_inspect d inst s of
             (Inl e, s1) \<Rightarrow> (Inl e, s1)
           | (Inr retcode', s1) \<Rightarrow>
               (case time_sleep 1 s1 of
                  (r, s2) \<Rightarrow>
                    if count + 1 > 15
                    then (Inl (ExecException
                                 (''Command '' @ cmd @ '' timed out, output: '' @ output) None), s2)
                    else poll_loop d cmd inst output (count + 1) retcode' s2)))"
  by pat_completeness auto
termination
  by (relation "measure (\<lambda>(d, cmd, inst, output, count, retcode, s). nat (16 - count))") auto

definition execute :: "externals \<Rightarrow> string \<Rightarrow> bool \<Rightarrow> string option action" where
  "execute d cmd detach =
     bnd (\<lambda>s. issue (ExecCreate (container (self s)) cmd) s)
       (\<lambda>_. bnd (answer (exec_create_answer d))
          (\<lambda>inst.
             if detach
             then bnd (issue (ExecStart inst True))
                    (\<lambda>_. bnd (answer (exec_start_answer d)) (\<lambda>_. ret None))
             else bnd (issue (ExecStart inst False))
                    (\<lambda>_. bnd (answer (exec_start_answer d))
                       (\<lambda>output. bnd (d_exec_inspect d inst)
                          (\<lambda>retcode. bnd (poll_loop d cmd inst output 0 retcode)
                             (\<lambda>rc. if rc \<noteq> 0
                                   then raise (ExecException
                                          (''Command '' @ cmd @
                                           '' failed to execute, return code: '' @ str_int rc)
                                          (Some output))
                                   else ret (Some output)))))))"

subsection \<open>Image removal and the context manager (lines 83 to 89 and 184 to 186)\<close>

text \<open>The method \<open>remove_image(self, force=False)\<close> of the class.\<close>

definition remove_image_method :: "externals \<Rightarrow> bool \<Rightarrow> unit action" where
  "remove_image_method d force =
     bnd (\<lambda>s. issue (RemoveImage (image_id (self s)) force) s)
       (\<lambda>_. answer_unit (remove_image_answer d))"

text \<open>
  \<open>self.remove_image\<close> is looked up on the instance first. \<open>__init__\<close> binds the
  attribute to the boolean argument on every handle (line 58), so the lookup never
  reaches the method of the class, and the call \<open>self.remove_image()\<close> is the call of a
  boolean.
\<close>

definition call_bool :: "bool \<Rightarrow> unit action" where
  "call_bool b = raise (TypeError ''bool object is not callable'')"

definition Container_enter :: "externals \<Rightarrow> unit action" where
  "Container_enter d = (\<lambda>s. start d (kwargs (self s)) s)"

definition Container_exit :: "externals \<Rightarrow> unit action" where
  "Container_exit d =
     bnd (stop d)
       (\<lambda>_ s. if remove_image (self s) then call_bool (remove_image (self s)) s else ret () s)"

text \<open>
  \<open>with handle: body\<close>. The body runs after \<open>__enter__\<close> returned; \<open>__exit__\<close> runs when
  the body returns and when it raises, and since it returns \<open>None\<close> the exception of the
  body is raised again afterwards, unless \<open>__exit__\<close> raised itself.
\<close>

definition with_handle :: "externals \<Rightarrow> 'a action \<Rightarrow> 'a action" where
  "with_handle d body =
     bnd (Container_enter d)
       (\<lambda>_ s. case body s of
                 (r, s1) \<Rightarrow>
                   (case Container_exit d s1 of
                      (Inl e, s2) \<Rightarrow> (Inl e, s2)
                    | (Inr u, s2) \<Rightarrow> (r, s2)))"

subsection \<open>Notions used to state the properties\<close>

text \<open>The number of removal requests issued so far, and the trace of \<open>n\<close> failed attempts.\<close>

definition removals :: "state \<Rightarrow> nat" where
  "removals s = length (filter is_RemoveContainer (events s))"

definition failed_attempts :: "descriptor \<Rightarrow> nat \<Rightarrow> event list" where
  "failed_attempts c n = concat (replicate n [RemoveContainer c, Sleep 20])"

text \<open>The number of exec inspections issued so far, and the trace of \<open>n\<close> polls of the loop.\<close>

definition inspections :: "state \<Rightarrow> nat" where
  "inspections s = length (filter is_ExecInspect (events s))"

definition pending_polls :: "string \<Rightarrow> nat \<Rightarrow> event list" where
  "pending_polls inst n = concat (replicate n [ExecInspect inst, Sleep 1])"

text \<open>
  The three sources of the environment, in the words of the specification: the mapping
  supplied in the keyword arguments, the mapping \<open>json.loads\<close> decodes from \<open>env_json\<close>,
  and the merge in which the decoded mapping wins over the instance's \<open>environ\<close>, which
  wins over the supplied mapping.
\<close>

definition supplied_environment :: "pydict \<Rightarrow> pydict" where
  "supplied_environment kw = (case kw ''environment'' of Some (PDict e) \<Rightarrow> e | _ \<Rightarrow> Map.empty)"

definition decoded_env_json :: "externals \<Rightarrow> pydict \<Rightarrow> pydict" where
  "decoded_env_json d kw =
     (case kw ''env_json'' of
        Some (PStr text) \<Rightarrow> (case json_loads d text of Inr m \<Rightarrow> m | Inl e \<Rightarrow> Map.empty)
      | _ \<Rightarrow> Map.empty)"

definition merged_environment :: "externals \<Rightarrow> Container \<Rightarrow> pydict \<Rightarrow> pydict" where
  "merged_environment d h kw =
     (\<lambda>k. case decoded_env_json d kw k of
             Some v \<Rightarrow> Some v
           | None \<Rightarrow>
               (case environ h k of
                  Some v \<Rightarrow> Some (PStr v)
                | None \<Rightarrow> supplied_environment kw k))"

text \<open>
  An environment override of the form \<open>a=1,b=2\<close>: pairs joined by commas, no key with a
  comma or an equals sign, no value with a comma. \<open>split_pair\<close> is what line 78 binds to
  \<open>name, value\<close> for an entry with an equals sign.
\<close>

definition has_equals :: "string \<Rightarrow> bool" where
  "has_equals x = (CHR ''='' \<in> set x)"

definition split_pair :: "string \<Rightarrow> string \<times> string" where
  "split_pair x = (takeWhile (\<lambda>c. c \<noteq> CHR ''='') x, tl (dropWhile (\<lambda>c. c \<noteq> CHR ''='') x))"



text \<open>A started handle and an engine that answers every request, for concrete runs.\<close>

definition example_handle :: Container where
  "example_handle =
     \<lparr>image_id = ''img'', container = Some \<lparr>Id' = ''c0ffee''\<rparr>, name = Some ''web 1'',
      ip_address = Some ''172.17.0.2'', output_dir = ''output'', save_output = True,
      remove_image = True, kwargs = Map.empty, running = True, volumes = None,
      environ = Map.empty, entrypoint = None\<rparr>"

definition example_state :: state where
  "example_state =
     \<lparr>self = example_handle, events = [], files = Map.empty, dirs = {}, logged_errors = []\<rparr>"

definition example_engine :: "(nat \<Rightarrow> exn option) \<Rightarrow> (nat \<Rightarrow> exn + int option) \<Rightarrow> externals" where
  "example_engine removal exit_code =
     \<lparr>create_container_answer = Inr \<lparr>Id' = ''c0ffee''\<rparr>,
      create_host_config_answer = None,
      start_answer = None,
      inspect_container_answer =
        Inr \<lparr>State_Running = True, NetworkSettings_IPAddress = ''172.17.0.3''\<rparr>,
      kill_answer = None,
      remove_container_answer = removal,
      logs_answer = Inr ''ready'',
      exec_create_answer = Inr ''exec1'',
      exec_start_answer = Inr ''hello'',
      exec_inspect_answer = exit_code,
      remove_image_answer = None,
      makedirs_answer = (\<lambda>p. None),
      open_answer = (\<lambda>p. None),
      write_answer = (\<lambda>p. None),
      json_loads = (\<lambda>text. Inr [''c'' \<mapsto> PStr ''3'']),
      py_int = (\<lambda>v. case v of PInt i \<Rightarrow> Some i | _ \<Rightarrow> None),
      create_host_config_varnames = [''binds'', ''privileged'']\<rparr>"

text \<open>A handle that was constructed and not started, and the state before construction.\<close>

definition fresh_state :: state where
  "fresh_state =
     \<lparr>self = \<lparr>image_id = ''img'', container = None, name = None, ip_address = None,
              output_dir = ''output'', save_output = True, remove_image = False,
              kwargs = Map.empty, running = False, volumes = Some [''/data:/mnt:z''],
              environ = [''a'' \<mapsto> ''1''], entrypoint = None\<rparr>,
      events = [], files = Map.empty, dirs = {}, logged_errors = []\<rparr>"

definition blank_state :: state where
  "blank_state =
     \<lparr>self = \<lparr>image_id = [], container = None, name = None, ip_address = None,
              output_dir = [], save_output = False, remove_image = False,
              kwargs = Map.empty, running = False, volumes = None,
              environ = Map.empty, entrypoint = None\<rparr>,
      events = [], files = Map.empty, dirs = {}, logged_errors = []\<rparr>"

text \<open>The state after \<open>Container('img', name='web 1', remove_image=True)\<close>.\<close>

definition constructed_state :: state where
  "constructed_state =
     snd (Container_init Map.empty ''img'' (Some ''web 1'') True ''output'' True None None
            Map.empty blank_state)"

section \<open>Properties\<close>

declare remove_container.simps [simp del] poll_loop.simps [simp del]

lemmas action_defs = ret_def raise_def bnd_def try_except_def modify_self_def issue_def
  answer_def answer_unit_def logger_error_def time_sleep_def

subsection \<open>Removal with retries\<close>

lemma remove_container_success:
  assumes "container (self s) = Some c"
    and "remove_container_answer d (removals s) = None"
  shows "remove_container d number s = (Inr (), s\<lparr>events := events s @ [RemoveContainer c]\<rparr>)"
  using assms by (subst remove_container.simps) (simp add: d_remove_container_def removals_def action_defs)

lemma remove_container_retry:
  assumes "container (self s) = Some c"
    and "remove_container_answer d (removals s) = Some e"
    and "number \<le> 3"
  shows "remove_container d number s =
         remove_container d (number + 1) (s\<lparr>events := events s @ [RemoveContainer c, Sleep 20]\<rparr>)"
  using assms by (subst remove_container.simps) (simp add: d_remove_container_def removals_def action_defs)

lemma remove_container_give_up:
  assumes "container (self s) = Some c"
    and "remove_container_answer d (removals s) = Some e"
    and "number > 3"
  shows "remove_container d number s = (Inl e, s\<lparr>events := events s @ [RemoveContainer c]\<rparr>)"
  using assms by (subst remove_container.simps) (simp add: d_remove_container_def removals_def action_defs)

lemma removals_append [simp]:
  "removals (s\<lparr>events := events s @ evs\<rparr>) = removals s + length (filter is_RemoveContainer evs)"
  by (simp add: removals_def)

lemma failed_attempts_Suc: "failed_attempts c (Suc m) = [RemoveContainer c, Sleep 20] @ failed_attempts c m"
  by (simp add: failed_attempts_def)

lemma removals_failed_attempts [simp]:
  "length (filter is_RemoveContainer (failed_attempts c m)) = m"
  by (induction m) (simp_all add: failed_attempts_def)

lemma remove_container_after_failures:
  assumes "container (self s) = Some c"
    and "\<forall>j<m. remove_container_answer d (removals s + j) \<noteq> None"
    and "number + int m \<le> 4"
  shows "remove_container d number s =
         remove_container d (number + int m) (s\<lparr>events := events s @ failed_attempts c m\<rparr>)"
  using assms
proof (induction m arbitrary: s number)
  case 0
  then show ?case by (simp add: failed_attempts_def)
next
  case (Suc m)
  from Suc.prems(2) obtain e0 where e0: "remove_container_answer d (removals s) = Some e0"
    by (metis add.right_neutral not_None_eq zero_less_Suc)
  let ?s1 = "s\<lparr>events := events s @ [RemoveContainer c, Sleep 20]\<rparr>"
  have step: "remove_container d number s = remove_container d (number + 1) ?s1"
    using Suc.prems(1,3) e0 by (intro remove_container_retry[where e = e0]) simp_all
  have "\<forall>j<m. remove_container_answer d (removals ?s1 + j) \<noteq> None"
    using Suc.prems(2) by (auto simp: less_Suc_eq_0_disj)
  then have "remove_container d (number + 1) ?s1 =
             remove_container d (number + 1 + int m) (?s1\<lparr>events := events ?s1 @ failed_attempts c m\<rparr>)"
    using Suc.prems(1,3) by (intro Suc.IH) simp_all
  with step show ?case
    by (simp add: failed_attempts_Suc ac_simps)
qed

text \<open>
  C4. A handle with a container calls \<open>_remove_container()\<close>. If the engine refuses the
  first \<open>k - 1\<close> removal requests and accepts the \<open>k\<close>-th, with \<open>k\<close> at most 4, the call
  returns without an exception after exactly \<open>k\<close> requests, with a sleep of 20 seconds
  after each refusal. If the engine refuses four requests in a row, the call raises the
  exception of the fourth request, after exactly four requests and three sleeps.
\<close>

theorem remove_container_attempts:
  assumes c: "container (self s) = Some c"
  shows "(1 \<le> k \<and> k \<le> 4 \<and>
          (\<forall>j<k - 1. remove_container_answer d (removals s + j) \<noteq> None) \<and>
          remove_container_answer d (removals s + (k - 1)) = None \<longrightarrow>
            remove_container d 1 s =
              (Inr (), s\<lparr>events := events s @ failed_attempts c (k - 1) @ [RemoveContainer c]\<rparr>) \<and>
            removals (snd (remove_container d 1 s)) = removals s + k) \<and>
         ((\<forall>j<4. remove_container_answer d (removals s + j) = Some (e j)) \<longrightarrow>
            remove_container d 1 s =
              (Inl (e 3), s\<lparr>events := events s @ failed_attempts c 3 @ [RemoveContainer c]\<rparr>) \<and>
            removals (snd (remove_container d 1 s)) = removals s + 4)"
proof -
  have ok: "remove_container d 1 s =
              (Inr (), s\<lparr>events := events s @ failed_attempts c (k - 1) @ [RemoveContainer c]\<rparr>)"
    if h: "1 \<le> k \<and> k \<le> 4 \<and>
          (\<forall>j<k - 1. remove_container_answer d (removals s + j) \<noteq> None) \<and>
          remove_container_answer d (removals s + (k - 1)) = None"
  proof -
    from h obtain m where k: "k = Suc m" by (cases k) auto
    let ?s1 = "s\<lparr>events := events s @ failed_attempts c m\<rparr>"
    have "remove_container d 1 s = remove_container d (1 + int m) ?s1"
      using c h k by (intro remove_container_after_failures) auto
    also have "\<dots> = (Inr (), ?s1\<lparr>events := events ?s1 @ [RemoveContainer c]\<rparr>)"
      using c h k by (intro remove_container_success) simp_all
    finally show ?thesis using k by simp
  qed
  have bad: "remove_container d 1 s =
              (Inl (e 3), s\<lparr>events := events s @ failed_attempts c 3 @ [RemoveContainer c]\<rparr>)"
    if h: "\<forall>j<4. remove_container_answer d (removals s + j) = Some (e j)"
  proof -
    let ?s1 = "s\<lparr>events := events s @ failed_attempts c 3\<rparr>"
    have "remove_container d 1 s = remove_container d (1 + int 3) ?s1"
      using c h by (intro remove_container_after_failures) auto
    also have "\<dots> = (Inl (e 3), ?s1\<lparr>events := events ?s1 @ [RemoveContainer c]\<rparr>)"
      using c h by (intro remove_container_give_up) simp_all
    finally show ?thesis by simp
  qed
  show ?thesis
    using ok bad by auto
qed

theorem remove_container_attempts_witness:
  "remove_container
     (example_engine (\<lambda>n. if n < 2 then Some (EngineError ''busy'') else None) (\<lambda>n. Inr None))
     1 example_state =
   (Inr (),
    example_state\<lparr>events :=
      [RemoveContainer \<lparr>Id' = ''c0ffee''\<rparr>, Sleep 20, RemoveContainer \<lparr>Id' = ''c0ffee''\<rparr>, Sleep 20,
       RemoveContainer \<lparr>Id' = ''c0ffee''\<rparr>]\<rparr>) \<and>
   remove_container
     (example_engine (\<lambda>n. Some (EngineError (if n = 3 then ''fourth'' else ''busy''))) (\<lambda>n. Inr None))
     1 example_state =
   (Inl (EngineError ''fourth''),
    example_state\<lparr>events :=
      [RemoveContainer \<lparr>Id' = ''c0ffee''\<rparr>, Sleep 20, RemoveContainer \<lparr>Id' = ''c0ffee''\<rparr>, Sleep 20,
       RemoveContainer \<lparr>Id' = ''c0ffee''\<rparr>, Sleep 20, RemoveContainer \<lparr>Id' = ''c0ffee''\<rparr>]\<rparr>)"
  using remove_container_attempts
          [of example_state "\<lparr>Id' = ''c0ffee''\<rparr>" 3
              "example_engine (\<lambda>n. if n < 2 then Some (EngineError ''busy'') else None) (\<lambda>n. Inr None)"
              "\<lambda>j. EngineError ''busy''"]
        remove_container_attempts
          [of example_state "\<lparr>Id' = ''c0ffee''\<rparr>" 1
              "example_engine (\<lambda>n. Some (EngineError (if n = 3 then ''fourth'' else ''busy''))) (\<lambda>n. Inr None)"
              "\<lambda>n. EngineError (if n = 3 then ''fourth'' else ''busy'')"]
  by (simp add: example_state_def example_handle_def example_engine_def removals_def
        failed_attempts_def numeral_3_eq_3 numeral_2_eq_2)

lemmas example_defs = example_state_def example_handle_def example_engine_def

lemmas run_defs = stop_def teardown_def save_logs_def os_makedirs_def makedirs_result_def
  path_exists_def open_w_def print_to_def log_name_def out_path_def inspect_def
  d_remove_container_def remove_container.simps sanitize_def replace_space_def
  re_match_word_or_space_def word_char_def action_defs

lemmas start_run_defs = start_def create_container_def merge_environ_def merge_env_json_def
  dict_update_def inspect_def action_defs

lemmas init_run_defs = Container_init_def volumes_from_env_def environ_from_env_def action_defs

subsection \<open>Stop\<close>

lemma remove_container_frame:
  "\<exists>evs. snd (remove_container d number s) = s\<lparr>events := events s @ evs\<rparr>"
proof (induction d number s rule: remove_container.induct)
  case (1 d number s)
  show ?case
  proof (cases "container (self s)")
    case None
    then have "snd (remove_container d number s) = s\<lparr>events := events s @ []\<rparr>"
      by (subst remove_container.simps) simp
    then show ?thesis by blast
  next
    case (Some c)
    let ?s1 = "s\<lparr>events := events s @ [RemoveContainer c]\<rparr>"
    show ?thesis
    proof (cases "remove_container_answer d (removals s)")
      case None
      with Some show ?thesis
        using remove_container_success[of s c d number] by (metis snd_conv)
    next
      case (Some e)
      note e = this
      show ?thesis
      proof (cases "number > 3")
        case True
        with e \<open>container (self s) = Some c\<close> show ?thesis
          using remove_container_give_up[of s c d e number] by (metis snd_conv)
      next
        case False
        let ?s2 = "s\<lparr>events := events s @ [RemoveContainer c, Sleep 20]\<rparr>"
        have d1: "d_remove_container d c s = (Inl e, ?s1)"
          using e by (simp add: d_remove_container_def removals_def action_defs)
        have sl: "time_sleep 20 ?s1 = (Inr (), ?s2)"
          by (simp add: action_defs)
        from "1.IH"[OF \<open>container (self s) = Some c\<close> d1[symmetric] refl False sl[symmetric]]
        obtain evs where "snd (remove_container d (number + 1) ?s2) = ?s2\<lparr>events := events ?s2 @ evs\<rparr>"
          by blast
        moreover have "remove_container d number s = remove_container d (number + 1) ?s2"
          using \<open>container (self s) = Some c\<close> e False by (intro remove_container_retry) simp_all
        ultimately have "snd (remove_container d number s) =
            s\<lparr>events := events s @ ([RemoveContainer c, Sleep 20] @ evs)\<rparr>"
          by simp
        then show ?thesis by blast
      qed
    qed
  qed
qed

text \<open>Line 125 in one expression: the filter, then the replacement of spaces.\<close>

lemma sanitize_eq:
  "sanitize nm =
     map (\<lambda>c. if c = CHR '' '' then CHR ''_'' else c)
       (filter (\<lambda>c. word_char c \<or> c = CHR '' '') nm)"
proof -
  have "re_match_word_or_space = (\<lambda>c. word_char c \<or> c = CHR '' '')"
    by (rule ext) (simp add: re_match_word_or_space_def)
  then show ?thesis
    by (simp add: sanitize_def replace_space_def)
qed

lemma save_logs_ok:
  assumes "container (self s) = Some c" and "logs_answer d = Inr text"
    and "\<not> path_exists s (output_dir (self s)) \<longrightarrow>
         makedirs_result d (output_dir (self s)) = None"
    and "open_answer d (out_path (self s) c) = None"
    and "write_answer d (out_path (self s) c) = None"
  shows "\<exists>s1. save_logs d s = (Inr (), s1) \<and>
          self s1 = (self s)\<lparr>name := Some (log_name (self s) c)\<rparr> \<and>
          files s1 = (files s)(out_path (self s) c \<mapsto> text @ [CHR 0x0A]) \<and>
          events s1 = events s @ [Logs (Id' c)]"
proof -
  have same: "path_exists (s\<lparr>self := h\<rparr>) p = path_exists s p" for h p
    by (simp add: path_exists_def)
  show ?thesis
  proof (cases "path_exists s (output_dir (self s))")
    case True
    with assms(1,2,4,5) show ?thesis
      by (simp add: save_logs_def open_w_def print_to_def same action_defs Let_def)
  next
    case False
    with assms(3) have "makedirs_result d (output_dir (self s)) = None" by simp
    with False assms(1,2,4,5) show ?thesis
      by (simp add: save_logs_def os_makedirs_def open_w_def print_to_def same action_defs
            Let_def)
  qed
qed

lemma teardown_reaches_removal:
  assumes "container (self s) = Some c"
    and "inspect_container_answer d = Inr ins"
    and "State_Running ins \<longrightarrow> kill_answer d = None"
  shows "teardown d s =
         (case remove_container d 1
                 (s\<lparr>events := events s @ InspectContainer (Id' c) #
                                (if State_Running ins then [Kill c] else []),
                    self := (self s)\<lparr>running := False\<rparr>\<rparr>) of
            (Inl e, s3) \<Rightarrow> (Inl e, s3)
          | (Inr u, s3) \<Rightarrow> (Inr (), s3\<lparr>self := (self s3)\<lparr>container := None\<rparr>\<rparr>))"
  using assms by (cases "State_Running ins") (simp_all add: teardown_def inspect_def action_defs)

lemma remove_container_keeps:
  assumes "remove_container d number t = (r, t')"
  shows "files t' = files t \<and> self t' = self t"
proof -
  obtain evs where "snd (remove_container d number t) = t\<lparr>events := events t @ evs\<rparr>"
    using remove_container_frame by blast
  with assms show ?thesis by simp
qed

lemma teardown_keeps:
  "files (snd (teardown d s)) = files s \<and> name (self (snd (teardown d s))) = name (self s)"
proof (cases "container (self s)")
  case None
  then show ?thesis by (simp add: teardown_def action_defs)
next
  case (Some c)
  then show ?thesis
    by (auto simp: teardown_def inspect_def action_defs
          split: sum.splits prod.splits option.splits dest: remove_container_keeps)
qed

text \<open>
  C6, as amended. \<open>stop\<close> on a handle with \<open>running\<close> and \<open>save_output\<close> true (and so with
  a container), when the output directory exists or can be created, the file can be
  opened and written, and the engine reports the logs: whatever the teardown that
  follows does, the file \<open>output_dir/filename.txt\<close> holds the reported logs followed by
  one newline character. \<open>filename\<close> is the \<open>name\<close> attribute the handle has when \<open>stop\<close>
  is called (the constructor's name at the first such call), joined to the container
  identifier by an underscore (the identifier alone without a name), filtered to word
  characters and spaces, with spaces replaced by underscores; \<open>stop\<close> binds the joined
  name to the attribute.
\<close>

theorem stop_saves_logs:
  assumes "running (self s)" and "save_output (self s)"
    and "container (self s) = Some c" and "logs_answer d = Inr text"
    and "\<not> path_exists s (output_dir (self s)) \<longrightarrow>
         makedirs_result d (output_dir (self s)) = None"
    and "open_answer d (out_path (self s) c) = None"
    and "write_answer d (out_path (self s) c) = None"
  shows "files (snd (stop d s)) (out_path (self s) c) = Some (text @ [CHR 0x0A]) \<and>
         out_path (self s) c =
           output_dir (self s) @ ''/'' @
           map (\<lambda>x. if x = CHR '' '' then CHR ''_'' else x)
             (filter (\<lambda>x. word_char x \<or> x = CHR '' '')
                (case name (self s) of
                   Some (x # xs) \<Rightarrow> (x # xs) @ ''_'' @ Id' c
                 | _ \<Rightarrow> Id' c)) @ ''.txt'' \<and>
         name (self (snd (stop d s))) =
           Some (case name (self s) of
                   Some (x # xs) \<Rightarrow> (x # xs) @ ''_'' @ Id' c
                 | _ \<Rightarrow> Id' c)"
proof -
  obtain s1 where s1: "save_logs d s = (Inr (), s1)"
    and h1: "self s1 = (self s)\<lparr>name := Some (log_name (self s) c)\<rparr>"
    and f1: "files s1 = (files s)(out_path (self s) c \<mapsto> text @ [CHR 0x0A])"
    using save_logs_ok[OF assms(3-7)] by blast
  have "stop d s = teardown d s1"
    using assms(1,2) s1 by (simp add: stop_def bnd_def)
  then have "files (snd (stop d s)) = files s1" and "name (self (snd (stop d s))) = name (self s1)"
    using teardown_keeps[of d s1] by simp_all
  then show ?thesis
    using h1 f1 by (simp add: out_path_def log_name_def sanitize_eq)
qed

text \<open>
  C10. \<open>stop\<close> on a handle with a container, where the earlier steps of \<open>stop\<close> do not
  raise and the engine refuses four removal requests in a row: the exception of the
  fourth request propagates, and the handle is left with \<open>running\<close> false and with
  the container reference it had, since line 139 is not reached.
\<close>

theorem stop_removal_exhausted:
  assumes c: "container (self s) = Some c"
    and lg: "running (self s) \<and> save_output (self s) \<longrightarrow>
             logs_answer d = Inr text \<and>
             (\<not> path_exists s (output_dir (self s)) \<longrightarrow>
                makedirs_result d (output_dir (self s)) = None) \<and>
             open_answer d (out_path (self s) c) = None \<and>
             write_answer d (out_path (self s) c) = None"
    and ins: "inspect_container_answer d = Inr ins"
    and kill: "State_Running ins \<longrightarrow> kill_answer d = None"
    and rm: "\<forall>j<4. remove_container_answer d (removals s + j) = Some (e j)"
  shows "fst (stop d s) = Inl (e 3) \<and>
         running (self (snd (stop d s))) = False \<and>
         container (self (snd (stop d s))) = Some c \<and>
         removals (snd (stop d s)) = removals s + 4"
proof -
  obtain s1 where s1: "stop d s = teardown d s1" and c1: "container (self s1) = Some c"
    and r1: "removals s1 = removals s"
  proof (cases "running (self s) \<and> save_output (self s)")
    case True
    with lg have "logs_answer d = Inr text"
      and "\<not> path_exists s (output_dir (self s)) \<longrightarrow>
             makedirs_result d (output_dir (self s)) = None"
      and "open_answer d (out_path (self s) c) = None"
      and "write_answer d (out_path (self s) c) = None"
      by simp_all
    from save_logs_ok[OF c this] obtain t where t: "save_logs d s = (Inr (), t)"
      and "self t = (self s)\<lparr>name := Some (log_name (self s) c)\<rparr>"
      and "events t = events s @ [Logs (Id' c)]"
      by blast
    with True c show ?thesis
      by (intro that[of t]) (simp_all add: stop_def bnd_def removals_def)
  next
    case False
    then show ?thesis
      using c by (intro that[of s]) (auto simp: stop_def bnd_def ret_def)
  qed
  let ?s2 = "s1\<lparr>events := events s1 @ InspectContainer (Id' c) #
                                (if State_Running ins then [Kill c] else []),
                 self := (self s1)\<lparr>running := False\<rparr>\<rparr>"
  have c2: "container (self ?s2) = Some c" using c1 by simp
  have r2: "removals ?s2 = removals s" using r1 by (simp add: removals_def)
  have "remove_container d 1 ?s2 =
        (Inl (e 3), ?s2\<lparr>events := events ?s2 @ failed_attempts c 3 @ [RemoveContainer c]\<rparr>)"
    using remove_container_after_failures[of ?s2 c 3 d 1]
      remove_container_give_up[of "?s2\<lparr>events := events ?s2 @ failed_attempts c 3\<rparr>" c d "e 3" 4]
      c2 r2 rm
    by (simp add: removals_def)
  then show ?thesis
    using s1 teardown_reaches_removal[OF c1 ins kill] c1 r1 by (simp add: removals_def)
qed

theorem stop_saves_logs_witness:
  "files (snd (stop (example_engine (\<lambda>n. None) (\<lambda>n. Inr (Some 0))) example_state))
     ''output/web_1_c0ffee.txt'' = Some [CHR ''r'', CHR ''e'', CHR ''a'', CHR ''d'', CHR ''y'', CHR 0x0A] \<and>
   name (self (snd (stop (example_engine (\<lambda>n. None) (\<lambda>n. Inr (Some 0))) example_state))) =
     Some ''web 1_c0ffee''"
proof -
  let ?d = "example_engine (\<lambda>n. None) (\<lambda>n. Inr (Some 0))"
  have w: "files (snd (stop ?d example_state)) (out_path (self example_state) \<lparr>Id' = ''c0ffee''\<rparr>) =
             Some (''ready'' @ [CHR 0x0A]) \<and>
           out_path (self example_state) \<lparr>Id' = ''c0ffee''\<rparr> =
             output_dir (self example_state) @ ''/'' @
             map (\<lambda>x. if x = CHR '' '' then CHR ''_'' else x)
               (filter (\<lambda>x. word_char x \<or> x = CHR '' '')
                  (case name (self example_state) of
                     Some (x # xs) \<Rightarrow> (x # xs) @ ''_'' @ Id' \<lparr>Id' = ''c0ffee''\<rparr>
                   | _ \<Rightarrow> Id' \<lparr>Id' = ''c0ffee''\<rparr>)) @ ''.txt'' \<and>
           name (self (snd (stop ?d example_state))) =
             Some (case name (self example_state) of
                     Some (x # xs) \<Rightarrow> (x # xs) @ ''_'' @ Id' \<lparr>Id' = ''c0ffee''\<rparr>
                   | _ \<Rightarrow> Id' \<lparr>Id' = ''c0ffee''\<rparr>)"
    by (rule stop_saves_logs)
       (simp_all add: example_defs path_exists_def makedirs_result_def)
  have p: "out_path (self example_state) \<lparr>Id' = ''c0ffee''\<rparr> = ''output/web_1_c0ffee.txt''"
    using w by (simp add: example_defs word_char_def)
  from w show ?thesis
    unfolding p by (simp add: example_defs)
qed

text \<open>
  A name with an accented letter keeps it, and an empty output directory makes \<open>stop\<close>
  raise before any file is written and before any request to the engine.
\<close>

lemma sanitize_keeps_accented_letter:
  "sanitize [CHR ''c'', CHR ''a'', CHR ''f'', CHR 0xE9, CHR ''/'', CHR ''1''] =
     [CHR ''c'', CHR ''a'', CHR ''f'', CHR 0xE9, CHR ''1'']"
  by (simp add: sanitize_eq word_char_def)

lemma stop_empty_output_dir:
  "stop (example_engine (\<lambda>n. None) (\<lambda>n. Inr None))
     (example_state\<lparr>self := example_handle\<lparr>output_dir := []\<rparr>\<rparr>) =
   (Inl (OSError ''No such file or directory''),
    example_state\<lparr>self := example_handle\<lparr>output_dir := [], name := Some ''web 1_c0ffee''\<rparr>\<rparr>)"
  by (simp add: example_defs stop_def save_logs_def os_makedirs_def makedirs_result_def
        path_exists_def log_name_def action_defs Let_def)

text \<open>
  C6 as stated fails: the file does not hold exactly the reported logs, because
  \<open>print\<close> ends what it writes with a newline.
\<close>

theorem stop_file_contents_counterexample:
  "running (self example_state) \<and> save_output (self example_state) \<and>
   logs_answer (example_engine (\<lambda>n. None) (\<lambda>n. Inr (Some 0))) = Inr ''ready'' \<and>
   fst (stop (example_engine (\<lambda>n. None) (\<lambda>n. Inr (Some 0))) example_state) = Inr () \<and>
   files (snd (stop (example_engine (\<lambda>n. None) (\<lambda>n. Inr (Some 0))) example_state))
     ''output/web_1_c0ffee.txt'' = Some [CHR ''r'', CHR ''e'', CHR ''a'', CHR ''d'', CHR ''y'', CHR 0x0A] \<and>
   files (snd (stop (example_engine (\<lambda>n. None) (\<lambda>n. Inr (Some 0))) example_state))
     ''output/web_1_c0ffee.txt'' \<noteq> Some ''ready''"
  by (simp add: example_defs run_defs)

theorem stop_removal_exhausted_witness:
  "fst (stop (example_engine (\<lambda>n. Some (EngineError (if n = 3 then ''fourth'' else ''busy'')))
                (\<lambda>n. Inr None)) example_state) = Inl (EngineError ''fourth'') \<and>
   running (self (snd (stop (example_engine
                              (\<lambda>n. Some (EngineError (if n = 3 then ''fourth'' else ''busy'')))
                              (\<lambda>n. Inr None)) example_state))) = False \<and>
   container (self (snd (stop (example_engine
                                (\<lambda>n. Some (EngineError (if n = 3 then ''fourth'' else ''busy'')))
                                (\<lambda>n. Inr None)) example_state))) = Some \<lparr>Id' = ''c0ffee''\<rparr>"
  using stop_removal_exhausted
          [of example_state "\<lparr>Id' = ''c0ffee''\<rparr>"
              "example_engine (\<lambda>n. Some (EngineError (if n = 3 then ''fourth'' else ''busy'')))
                 (\<lambda>n. Inr None)"
              "''ready''"
              "\<lparr>State_Running = True, NetworkSettings_IPAddress = ''172.17.0.3''\<rparr>"
              "\<lambda>n. EngineError (if n = 3 then ''fourth'' else ''busy'')"]
  by (simp add: example_defs removals_def path_exists_def makedirs_result_def)

subsection \<open>The context manager\<close>

text \<open>
  \<open>__exit__\<close> runs \<open>stop\<close> first, whatever the handle; when \<open>stop\<close> returns and the
  attribute \<open>remove_image\<close> is true, it raises.
\<close>

lemma exit_runs_stop_first:
  "Container_exit d s =
     (case stop d s of
        (Inl e, s') \<Rightarrow> (Inl e, s')
      | (Inr u, s') \<Rightarrow>
          if remove_image (self s')
          then (Inl (TypeError ''bool object is not callable''), s')
          else (Inr (), s'))"
  by (simp add: Container_exit_def call_bool_def bnd_def raise_def ret_def
        split: prod.splits sum.splits)

text \<open>
  C2, evaluated on an engine that accepts every request. On a started handle that was
  constructed with \<open>remove_image=True\<close>, \<open>__exit__\<close> runs \<open>stop\<close> (the logs are fetched,
  the container is killed and removed) and then raises a \<open>TypeError\<close> of its own. The
  same holds for \<open>with Container('img', name='web 1', remove_image=True): body\<close>, for a
  body that returns and for a body that raises: \<open>stop\<close> has removed the container, no
  image removal is requested, and the \<open>TypeError\<close> is what the statement raises.
\<close>

theorem exit_calls_bool:
  "remove_image (self example_state) \<and>
   fst (Container_exit (example_engine (\<lambda>n. None) (\<lambda>n. Inr (Some 0))) example_state) =
     Inl (TypeError ''bool object is not callable'') \<and>
   events (snd (Container_exit (example_engine (\<lambda>n. None) (\<lambda>n. Inr (Some 0))) example_state)) =
     [Logs ''c0ffee'', InspectContainer ''c0ffee'', Kill \<lparr>Id' = ''c0ffee''\<rparr>,
      RemoveContainer \<lparr>Id' = ''c0ffee''\<rparr>] \<and>
   remove_image (self constructed_state) \<and>
   fst (with_handle (example_engine (\<lambda>n. None) (\<lambda>n. Inr (Some 0))) (ret ()) constructed_state) =
     Inl (TypeError ''bool object is not callable'') \<and>
   fst (with_handle (example_engine (\<lambda>n. None) (\<lambda>n. Inr (Some 0)))
          (raise (ValueError ''raised by the body'') :: unit action) constructed_state) =
     Inl (TypeError ''bool object is not callable'') \<and>
   removals (snd (with_handle (example_engine (\<lambda>n. None) (\<lambda>n. Inr (Some 0))) (ret ())
                    constructed_state)) = 1 \<and>
   \<not> list_ex is_RemoveImage
       (events (snd (with_handle (example_engine (\<lambda>n. None) (\<lambda>n. Inr (Some 0))) (ret ())
                       constructed_state)))"
  by (simp add: example_defs run_defs start_run_defs init_run_defs constructed_state_def
        blank_state_def Container_exit_def Container_enter_def with_handle_def call_bool_def
        removals_def Let_def)

subsection \<open>Command execution\<close>

lemma inspections_append [simp]:
  "inspections (s\<lparr>events := events s @ evs\<rparr>) = inspections s + length (filter is_ExecInspect evs)"
  by (simp add: inspections_def)

lemma pending_polls_Suc:
  "pending_polls inst (Suc m) = [ExecInspect inst, Sleep 1] @ pending_polls inst m"
  by (simp add: pending_polls_def)

lemma inspections_pending_polls [simp]:
  "length (filter is_ExecInspect (pending_polls inst m)) = m"
  by (induction m) (simp_all add: pending_polls_def)

lemma poll_loop_done: "poll_loop d cmd inst output count (Some rc) s = (Inr rc, s)"
  by (subst poll_loop.simps) simp

lemma poll_loop_step:
  assumes "exec_inspect_answer d (inspections s) = Inr r" and "count + 1 \<le> 15"
  shows "poll_loop d cmd inst output count None s =
         poll_loop d cmd inst output (count + 1) r (s\<lparr>events := events s @ [ExecInspect inst, Sleep 1]\<rparr>)"
  using assms by (subst poll_loop.simps) (simp add: d_exec_inspect_def inspections_def action_defs)

lemma poll_loop_timeout:
  assumes "exec_inspect_answer d (inspections s) = Inr r" and "count + 1 > 15"
  shows "poll_loop d cmd inst output count None s =
         (Inl (ExecException (''Command '' @ cmd @ '' timed out, output: '' @ output) None),
          s\<lparr>events := events s @ [ExecInspect inst, Sleep 1]\<rparr>)"
  using assms by (subst poll_loop.simps) (simp add: d_exec_inspect_def inspections_def action_defs)

lemma poll_loop_pending:
  assumes "\<forall>j<m. exec_inspect_answer d (inspections s + j) = Inr None"
    and "count + int m \<le> 15"
  shows "poll_loop d cmd inst output count None s =
         poll_loop d cmd inst output (count + int m) None
           (s\<lparr>events := events s @ pending_polls inst m\<rparr>)"
  using assms
proof (induction m arbitrary: s count)
  case 0
  then show ?case by (simp add: pending_polls_def)
next
  case (Suc m)
  let ?s1 = "s\<lparr>events := events s @ [ExecInspect inst, Sleep 1]\<rparr>"
  have "exec_inspect_answer d (inspections s) = Inr None"
    using Suc.prems(1) by (metis add.right_neutral zero_less_Suc)
  then have step: "poll_loop d cmd inst output count None s =
                   poll_loop d cmd inst output (count + 1) None ?s1"
    using Suc.prems(2) by (intro poll_loop_step) simp_all
  have "\<forall>j<m. exec_inspect_answer d (inspections ?s1 + j) = Inr None"
    using Suc.prems(1) by (auto simp: less_Suc_eq_0_disj)
  then have "poll_loop d cmd inst output (count + 1) None ?s1 =
             poll_loop d cmd inst output (count + 1 + int m) None
               (?s1\<lparr>events := events ?s1 @ pending_polls inst m\<rparr>)"
    using Suc.prems(2) by (intro Suc.IH) simp_all
  with step show ?case
    by (simp add: pending_polls_Suc ac_simps)
qed

text \<open>Everything before the loop, and what follows it.\<close>

lemma execute_unfold:
  assumes "exec_create_answer d = Inr inst" and "exec_start_answer d = Inr output"
    and "exec_inspect_answer d (inspections s) = Inr r"
  shows "execute d cmd False s =
         (case poll_loop d cmd inst output 0 r
                 (s\<lparr>events := events s @
                      [ExecCreate (container (self s)) cmd, ExecStart inst False, ExecInspect inst]\<rparr>) of
            (Inl e, s') \<Rightarrow> (Inl e, s')
          | (Inr rc, s') \<Rightarrow>
              if rc \<noteq> 0
              then (Inl (ExecException
                           (''Command '' @ cmd @ '' failed to execute, return code: '' @ str_int rc)
                           (Some output)), s')
              else (Inr (Some output), s'))"
  using assms
  by (simp add: execute_def d_exec_inspect_def inspections_def action_defs
        split: prod.splits sum.splits)

lemma execute_state_when_resolved:
  assumes cr: "exec_create_answer d = Inr inst" and st: "exec_start_answer d = Inr output"
    and pend: "\<forall>j<k. exec_inspect_answer d (inspections s + j) = Inr None"
    and res: "exec_inspect_answer d (inspections s + k) = Inr (Some rc)"
    and k: "k \<le> 15"
  shows "execute d cmd False s =
         (if rc \<noteq> 0
          then Inl (ExecException
                      (''Command '' @ cmd @ '' failed to execute, return code: '' @ str_int rc)
                      (Some output))
          else Inr (Some output),
          s\<lparr>events := events s @
               [ExecCreate (container (self s)) cmd, ExecStart inst False, ExecInspect inst] @
               pending_polls inst k\<rparr>)"
proof (cases k)
  case 0
  with res have "exec_inspect_answer d (inspections s) = Inr (Some rc)" by simp
  from execute_unfold[OF cr st this] 0 show ?thesis
    by (simp add: poll_loop_done pending_polls_def)
next
  case (Suc m)
  let ?s0 = "s\<lparr>events := events s @
                 [ExecCreate (container (self s)) cmd, ExecStart inst False, ExecInspect inst]\<rparr>"
  let ?s1 = "?s0\<lparr>events := events ?s0 @ pending_polls inst m\<rparr>"
  from pend Suc have i0: "exec_inspect_answer d (inspections s) = Inr None"
    by (metis add.right_neutral zero_less_Suc)
  have "\<forall>j<m. exec_inspect_answer d (inspections ?s0 + j) = Inr None"
    using pend Suc by (auto simp: )
  then have "poll_loop d cmd inst output 0 None ?s0 = poll_loop d cmd inst output (0 + int m) None ?s1"
    using k Suc by (intro poll_loop_pending) simp_all
  also have "\<dots> = poll_loop d cmd inst output (0 + int m + 1) (Some rc)
                      (?s1\<lparr>events := events ?s1 @ [ExecInspect inst, Sleep 1]\<rparr>)"
    using k Suc res by (intro poll_loop_step) simp_all
  also have "\<dots> = (Inr rc, ?s1\<lparr>events := events ?s1 @ [ExecInspect inst, Sleep 1]\<rparr>)"
    by (rule poll_loop_done)
  finally have "poll_loop d cmd inst output 0 None ?s0 =
                (Inr rc, ?s1\<lparr>events := events ?s1 @ [ExecInspect inst, Sleep 1]\<rparr>)" .
  moreover have "pending_polls inst (Suc m) = pending_polls inst m @ [ExecInspect inst, Sleep 1]"
    by (induction m) (simp_all add: pending_polls_def)
  ultimately show ?thesis
    using execute_unfold[OF cr st i0] Suc by simp
qed

lemma execute_state_on_timeout:
  assumes cr: "exec_create_answer d = Inr inst" and st: "exec_start_answer d = Inr output"
    and pend: "\<forall>j<16. exec_inspect_answer d (inspections s + j) = Inr None"
    and last: "exec_inspect_answer d (inspections s + 16) = Inr r"
  shows "execute d cmd False s =
         (Inl (ExecException (''Command '' @ cmd @ '' timed out, output: '' @ output) None),
          s\<lparr>events := events s @
               [ExecCreate (container (self s)) cmd, ExecStart inst False, ExecInspect inst] @
               pending_polls inst 16\<rparr>)"
proof -
  let ?s0 = "s\<lparr>events := events s @
                 [ExecCreate (container (self s)) cmd, ExecStart inst False, ExecInspect inst]\<rparr>"
  let ?s1 = "?s0\<lparr>events := events ?s0 @ pending_polls inst 15\<rparr>"
  from pend have i0: "exec_inspect_answer d (inspections s) = Inr None"
    by (metis add.right_neutral zero_less_numeral)
  have "\<forall>j<15. exec_inspect_answer d (inspections ?s0 + j) = Inr None"
  proof (intro allI impI)
    fix j :: nat
    assume "j < 15"
    then have "Suc j < 16" by simp
    with pend have "exec_inspect_answer d (inspections s + Suc j) = Inr None" by blast
    then show "exec_inspect_answer d (inspections ?s0 + j) = Inr None" by simp
  qed
  then have "poll_loop d cmd inst output 0 None ?s0 = poll_loop d cmd inst output (0 + int 15) None ?s1"
    by (intro poll_loop_pending) simp_all
  also have "\<dots> = (Inl (ExecException (''Command '' @ cmd @ '' timed out, output: '' @ output) None),
                     ?s1\<lparr>events := events ?s1 @ [ExecInspect inst, Sleep 1]\<rparr>)"
    using last by (intro poll_loop_timeout[where r = r]) simp_all
  finally have "poll_loop d cmd inst output 0 None ?s0 =
     (Inl (ExecException (''Command '' @ cmd @ '' timed out, output: '' @ output) None),
                     ?s1\<lparr>events := events ?s1 @ [ExecInspect inst, Sleep 1]\<rparr>)" .
  moreover have "pending_polls inst 16 = pending_polls inst 15 @ [ExecInspect inst, Sleep 1]"
    by (simp add: pending_polls_def eval_nat_numeral)
  ultimately show ?thesis
    using execute_unfold[OF cr st i0] by simp
qed

text \<open>
  C7, as amended. A non-detached \<open>execute\<close> whose exec is created and started, and
  whose exit code is reported at the first inspection or at one of the first 15 polls
  of the loop: a non-zero exit code raises an \<open>ExecException\<close> whose message ends with
  the return code and whose output attribute is the output captured from the start of
  the exec; the exit code 0 returns the captured output.
\<close>

theorem execute_resolved:
  assumes "exec_create_answer d = Inr inst" and "exec_start_answer d = Inr output"
    and "\<forall>j<k. exec_inspect_answer d (inspections s + j) = Inr None"
    and "exec_inspect_answer d (inspections s + k) = Inr (Some rc)"
    and "k \<le> 15"
  shows "(rc \<noteq> 0 \<longrightarrow>
            fst (execute d cmd False s) =
              Inl (ExecException
                     (''Command '' @ cmd @ '' failed to execute, return code: '' @ str_int rc)
                     (Some output))) \<and>
         (rc = 0 \<longrightarrow> fst (execute d cmd False s) = Inr (Some output))"
  using execute_state_when_resolved[OF assms, of cmd] by simp

theorem execute_resolved_witness:
  "fst (execute (example_engine (\<lambda>n. None) (\<lambda>n. if n < 2 then Inr None else Inr (Some 1)))
          ''ls'' False example_state) =
     Inl (ExecException ''Command ls failed to execute, return code: 1'' (Some ''hello'')) \<and>
   fst (execute (example_engine (\<lambda>n. None) (\<lambda>n. Inr (Some 0))) ''ls'' False example_state) =
     Inr (Some ''hello'')"
  using execute_resolved
          [of "example_engine (\<lambda>n. None) (\<lambda>n. if n < 2 then Inr None else Inr (Some 1))"
              "''exec1''" "''hello''" 2 example_state 1 "''ls''"]
        execute_resolved
          [of "example_engine (\<lambda>n. None) (\<lambda>n. Inr (Some 0))"
              "''exec1''" "''hello''" 0 example_state 0 "''ls''"]
  by (simp add: example_defs inspections_def str_int_def)

text \<open>
  C7 as stated fails: an exit code first reported at the 16th poll of the loop is read
  on line 164 (it is the 17th inspection) and then discarded by the raise of line 167.
  For the exit code 1 the exception is the one of the timeout, without the return code
  and without an output attribute; for the exit code 0 \<open>execute\<close> raises instead of
  returning the output.
\<close>

theorem execute_resolved_counterexample:
  "exec_inspect_answer
     (example_engine (\<lambda>n. None) (\<lambda>n. if n < 16 then Inr None else Inr (Some 1))) 16 =
     Inr (Some 1) \<and>
   inspections (snd (execute (example_engine (\<lambda>n. None)
                                (\<lambda>n. if n < 16 then Inr None else Inr (Some 1)))
                       ''ls'' False example_state)) = 17 \<and>
   fst (execute (example_engine (\<lambda>n. None) (\<lambda>n. if n < 16 then Inr None else Inr (Some 1)))
          ''ls'' False example_state) =
     Inl (ExecException ''Command ls timed out, output: hello'' None) \<and>
   fst (execute (example_engine (\<lambda>n. None) (\<lambda>n. if n < 16 then Inr None else Inr (Some 1)))
          ''ls'' False example_state) \<noteq>
     Inl (ExecException ''Command ls failed to execute, return code: 1'' (Some ''hello'')) \<and>
   exec_inspect_answer
     (example_engine (\<lambda>n. None) (\<lambda>n. if n < 16 then Inr None else Inr (Some 0))) 16 =
     Inr (Some 0) \<and>
   fst (execute (example_engine (\<lambda>n. None) (\<lambda>n. if n < 16 then Inr None else Inr (Some 0)))
          ''ls'' False example_state) =
     Inl (ExecException ''Command ls timed out, output: hello'' None) \<and>
   fst (execute (example_engine (\<lambda>n. None) (\<lambda>n. if n < 16 then Inr None else Inr (Some 0)))
          ''ls'' False example_state) \<noteq> Inr (Some ''hello'')"
  using execute_state_on_timeout
          [of "example_engine (\<lambda>n. None) (\<lambda>n. if n < 16 then Inr None else Inr (Some 1))"
              "''exec1''" "''hello''" example_state "Some 1" "''ls''"]
        execute_state_on_timeout
          [of "example_engine (\<lambda>n. None) (\<lambda>n. if n < 16 then Inr None else Inr (Some 0))"
              "''exec1''" "''hello''" example_state "Some 0" "''ls''"]
  by (simp add: example_defs inspections_def pending_polls_def eval_nat_numeral)

text \<open>
  C3, evaluated on an engine whose exit code stays unknown: the loop inspects 16 times
  (17 inspections with the one before the loop) and sleeps 16 times before it raises,
  and the exception it raises has no output attribute; the captured output stands in
  the message only.
\<close>

theorem execute_timeout_output_not_attached:
  "fst (execute (example_engine (\<lambda>n. None) (\<lambda>n. Inr None)) ''ls'' False example_state) =
     Inl (ExecException ''Command ls timed out, output: hello'' None) \<and>
   exn_output (ExecException ''Command ls timed out, output: hello'' None) = None \<and>
   inspections (snd (execute (example_engine (\<lambda>n. None) (\<lambda>n. Inr None)) ''ls'' False
                       example_state)) = 17 \<and>
   length (filter (\<lambda>ev. ev = Sleep 1)
             (events (snd (execute (example_engine (\<lambda>n. None) (\<lambda>n. Inr None)) ''ls'' False
                             example_state)))) = 16"
  using execute_state_on_timeout
          [of "example_engine (\<lambda>n. None) (\<lambda>n. Inr None)" "''exec1''" "''hello''" example_state
              None "''ls''"]
  by (simp add: example_defs inspections_def pending_polls_def eval_nat_numeral)

subsection \<open>Creation and start\<close>

lemma split_host_args_kw:
  "snd (split_host_args f names (ha, kw)) k = (if k \<in> set names then None else kw k)"
  by (induction names arbitrary: ha kw) (auto split: option.splits)

lemma merge_environ_result:
  "merge_environ h kw s = (r, s') \<Longrightarrow>
   s' = s \<and>
   (case r of
      Inl e \<Rightarrow> True
    | Inr kw1 \<Rightarrow>
        kw1 = kw(''environment'' \<mapsto>
                  PDict (supplied_environment kw ++ (map_option PStr \<circ> environ h))))"
  by (auto simp: merge_environ_def dict_update_def supplied_environment_def action_defs Let_def
        split: option.splits pyval.splits sum.splits)

lemma merge_env_json_result:
  assumes "merge_env_json d kw1 s = (r, s')" and "kw1 ''environment'' = Some (PDict e1)"
    and "kw1 ''env_json'' = kw ''env_json''"
  shows "s' = s \<and>
   (case r of
      Inl e \<Rightarrow> True
    | Inr kw2 \<Rightarrow>
        kw2 ''environment'' = Some (PDict (e1 ++ decoded_env_json d kw)) \<and>
        kw2 ''env_json'' = None)"
  using assms
  by (auto simp: merge_env_json_def dict_update_def decoded_env_json_def action_defs Let_def
        split: option.splits pyval.splits sum.splits)

lemma merged_environment_eq:
  "(supplied_environment kw ++ (map_option PStr \<circ> environ h)) ++ decoded_env_json d kw =
   merged_environment d h kw"
  by (rule ext) (simp add: merged_environment_def map_add_def split: option.splits)

lemma create_container_events:
  "events (snd (create_container d kw s)) = events s \<or>
   (\<exists>ca. events (snd (create_container d kw s)) = events s @ [CreateContainer ca] \<and>
         arg_kwargs ca ''environment'' = Some (PDict (merged_environment d (self s) kw)) \<and>
         arg_kwargs ca ''env_json'' = None)"
proof (cases "running (self s)")
  case True
  then show ?thesis by (simp add: create_container_def ret_def)
next
  case False
  obtain r1 s1 where m1: "merge_environ (self s) kw s = (r1, s1)" by fastforce
  from merge_environ_result[OF m1] have s1: "s1 = s" by simp
  show ?thesis
  proof (cases r1)
    case (Inl e)
    with False m1 s1 show ?thesis by (simp add: create_container_def bnd_def Let_def)
  next
    case (Inr kw1)
    with merge_environ_result[OF m1]
    have kw1: "kw1 = kw(''environment'' \<mapsto>
                  PDict (supplied_environment kw ++ (map_option PStr \<circ> environ (self s))))"
      by simp
    obtain r2 s2 where m2: "merge_env_json d kw1 s = (r2, s2)" by fastforce
    have e1: "kw1 ''environment'' =
              Some (PDict (supplied_environment kw ++ (map_option PStr \<circ> environ (self s))))"
      and j1: "kw1 ''env_json'' = kw ''env_json''"
      using kw1 by simp_all
    from merge_env_json_result[where kw = kw, OF m2 e1 j1] have s2: "s2 = s" by simp
    show ?thesis
    proof (cases r2)
      case (Inl e)
      with False m1 s1 Inr m2 s2 show ?thesis by (simp add: create_container_def bnd_def Let_def)
    next
      case kw2: (Inr kw2)
      with merge_env_json_result[where kw = kw, OF m2 e1 j1]
      have env2: "kw2 ''environment'' = Some (PDict (merged_environment d (self s) kw))"
        and j2: "kw2 ''env_json'' = None"
        by (simp_all add: merged_environment_eq)
      let ?names = "create_host_config_varnames d @ [''cpu_quota'', ''cpu_period'', ''mem_limit'']"
      let ?ha0 = "case volumes (self s) of
                    Some (v # vs) \<Rightarrow> [''binds'' \<mapsto> PList (map PStr (v # vs))]
                  | _ \<Rightarrow> Map.empty"
      obtain ha kw3 where sp: "split_host_args (py_int d) ?names (?ha0, kw2) = (ha, kw3)"
        by (cases "split_host_args (py_int d) ?names (?ha0, kw2)")
      have "snd (split_host_args (py_int d) ?names (?ha0, kw2)) k =
            (if k \<in> set ?names then None else kw2 k)" for k
        by (rule split_host_args_kw)
      then have kw3: "kw3 k = (if k \<in> set ?names then None else kw2 k)" for k
        by (simp only: sp snd_conv)
      show ?thesis
      proof (cases "kw3 ''environment''")
        case None
        with False m1 s1 Inr m2 s2 kw2 sp show ?thesis
          by (simp add: create_container_def bnd_def raise_def Let_def)
      next
        case (Some env)
        with kw3[of "''environment''"] env2
        have env3: "kw3 ''environment'' = Some (PDict (merged_environment d (self s) kw))"
          by (simp split: if_splits)
        have j3: "kw3 ''env_json'' = None"
          using kw3[of "''env_json''"] j2 by simp
        have "create_container d kw s =
              (case create_host_config_answer d of
                 Some e \<Rightarrow> (Inl e, s)
               | None \<Rightarrow>
                   if list_ex (\<lambda>k. kw3 k \<noteq> None)
                        [''image'', ''detach'', ''entrypoint'', ''volumes'', ''host_config'']
                   then (Inl (TypeError ''got multiple values for keyword argument''), s)
                   else bnd (issue (CreateContainer
                                \<lparr>arg_image = image_id (self s), arg_detach = True,
                                 arg_entrypoint = entrypoint (self s),
                                 arg_volumes =
                                   (case volumes (self s) of
                                      Some (v # vs) \<Rightarrow> Some (map mount_point (v # vs))
                                    | _ \<Rightarrow> None),
                                 arg_host_config = ha, arg_kwargs = kw3\<rparr>))
                          (\<lambda>_. bnd (answer (create_container_answer d))
                             (\<lambda>c. modify_self (\<lambda>h. h\<lparr>container := Some c\<rparr>))) s)"
          using False m1 s1 Inr m2 s2 kw2 sp Some
          by (simp add: create_container_def bnd_def raise_def ret_def answer_unit_def Let_def
                del: list_ex_Cons_iff list_ex_Nil_iff split: option.splits)
        then show ?thesis
          using env3 j3
          by (simp add: action_defs del: list_ex_Cons_iff list_ex_Nil_iff split: option.splits sum.splits)
      qed
    qed
  qed
qed

lemma start_events:
  "\<exists>more. events (snd (start d kw s)) = events (snd (create_container d kw s)) @ more \<and>
          (more = [] \<or> (\<exists>c more'. more = Start c # more'))"
proof -
  obtain r s1 where cc: "create_container d kw s = (r, s1)" by fastforce
  show ?thesis
  proof (cases r)
    case (Inl e)
    with cc show ?thesis by (simp add: start_def bnd_def)
  next
    case (Inr u)
    show ?thesis
    proof (cases "container (self s1)")
      case None
      with cc Inr show ?thesis by (simp add: start_def bnd_def raise_def)
    next
      case (Some c)
      with cc Inr show ?thesis
        by (simp add: start_def inspect_def action_defs split: option.splits sum.splits)
    qed
  qed
qed

text \<open>
  C8. Whenever \<open>start\<close> issues a creation request, the keyword arguments of the request
  hold under \<open>environment\<close> the supplied environment mapping updated with the instance's
  \<open>environ\<close> and then with the mapping decoded from \<open>env_json\<close> (a later source wins on a
  key it has, every other key keeps its value), and hold no \<open>env_json\<close> key.
\<close>

theorem start_create_environment:
  assumes "events (snd (start d kw s)) = events s @ CreateContainer ca # rest"
  shows "arg_kwargs ca ''environment'' = Some (PDict (merged_environment d (self s) kw)) \<and>
         arg_kwargs ca ''env_json'' = None"
proof -
  obtain more where more: "events (snd (start d kw s)) = events (snd (create_container d kw s)) @ more"
    and shape: "more = [] \<or> (\<exists>c more'. more = Start c # more')"
    using start_events by blast
  from create_container_events[of d kw s] show ?thesis
  proof
    assume "events (snd (create_container d kw s)) = events s"
    with more assms have "more = CreateContainer ca # rest" by simp
    with shape show ?thesis by auto
  next
    assume "\<exists>ca'. events (snd (create_container d kw s)) = events s @ [CreateContainer ca'] \<and>
         arg_kwargs ca' ''environment'' = Some (PDict (merged_environment d (self s) kw)) \<and>
         arg_kwargs ca' ''env_json'' = None"
    then obtain ca' where ev: "events (snd (create_container d kw s)) = events s @ [CreateContainer ca']"
      and p: "arg_kwargs ca' ''environment'' = Some (PDict (merged_environment d (self s) kw))"
             "arg_kwargs ca' ''env_json'' = None"
      by blast
    from more ev assms have "ca' = ca" by simp
    with p show ?thesis by simp
  qed
qed

theorem start_create_environment_witness:
  "\<exists>ca rest.
     events (snd (start (example_engine (\<lambda>n. None) (\<lambda>n. Inr None))
                    [''environment'' \<mapsto> PDict [''a'' \<mapsto> PStr ''0'', ''b'' \<mapsto> PStr ''2'',
                                                 ''c'' \<mapsto> PStr ''0''],
                     ''env_json'' \<mapsto> PStr ''{c: 3}'', ''privileged'' \<mapsto> PBool True]
                    fresh_state)) = events fresh_state @ CreateContainer ca # rest \<and>
     arg_kwargs ca ''env_json'' = None \<and>
     (\<exists>env. arg_kwargs ca ''environment'' = Some (PDict env) \<and>
            env ''a'' = Some (PStr ''1'') \<and> env ''b'' = Some (PStr ''2'') \<and>
            env ''c'' = Some (PStr ''3''))"
proof -
  let ?d = "example_engine (\<lambda>n. None) (\<lambda>n. Inr None)"
  let ?kw = "[''environment'' \<mapsto> PDict [''a'' \<mapsto> PStr ''0'', ''b'' \<mapsto> PStr ''2'',
                                              ''c'' \<mapsto> PStr ''0''],
              ''env_json'' \<mapsto> PStr ''{c: 3}'', ''privileged'' \<mapsto> PBool True]"
  have "\<exists>ca rest. events (snd (start ?d ?kw fresh_state)) =
                    events fresh_state @ CreateContainer ca # rest"
    by (simp add: fresh_state_def example_engine_def start_run_defs Let_def)
  then obtain ca rest where ev: "events (snd (start ?d ?kw fresh_state)) =
                    events fresh_state @ CreateContainer ca # rest"
    by blast
  from start_create_environment[OF ev]
  have "arg_kwargs ca ''environment'' = Some (PDict (merged_environment ?d (self fresh_state) ?kw))"
    and "arg_kwargs ca ''env_json'' = None"
    by simp_all
  moreover have "merged_environment ?d (self fresh_state) ?kw ''a'' = Some (PStr ''1'')"
    "merged_environment ?d (self fresh_state) ?kw ''b'' = Some (PStr ''2'')"
    "merged_environment ?d (self fresh_state) ?kw ''c'' = Some (PStr ''3'')"
    by (simp_all add: merged_environment_def decoded_env_json_def supplied_environment_def
          fresh_state_def example_engine_def)
  ultimately show ?thesis using ev by blast
qed

text \<open>
  C5, as amended. \<open>start\<close> on a handle whose \<open>running\<close> flag is true and which holds a
  container creates no container and leaves the container reference and the flag as
  they are; it issues a start request for the existing container and, when the engine
  accepts it, an inspection, and sets \<open>ip_address\<close> to the address the inspection
  reports.
\<close>

theorem start_while_running:
  assumes "running (self s)" and "container (self s) = Some c"
  shows "start d kw s =
         (case start_answer d of
            Some e \<Rightarrow> (Inl e, s\<lparr>events := events s @ [Start c]\<rparr>)
          | None \<Rightarrow>
              (case inspect_container_answer d of
                 Inl e \<Rightarrow> (Inl e, s\<lparr>events := events s @ [Start c, InspectContainer (Id' c)]\<rparr>)
               | Inr ins \<Rightarrow>
                   (Inr (),
                    s\<lparr>events := events s @ [Start c, InspectContainer (Id' c)],
                      self := (self s)\<lparr>ip_address := Some (NetworkSettings_IPAddress ins)\<rparr>\<rparr>)))"
  using assms
  by (simp add: start_def create_container_def inspect_def action_defs
        split: option.splits sum.splits)

theorem start_while_running_witness:
  "start (example_engine (\<lambda>n. None) (\<lambda>n. Inr None)) Map.empty example_state =
     (Inr (),
      example_state
        \<lparr>events := [Start \<lparr>Id' = ''c0ffee''\<rparr>, InspectContainer ''c0ffee''],
         self := example_handle\<lparr>ip_address := Some ''172.17.0.3''\<rparr>\<rparr>)"
  using start_while_running
          [of example_state "\<lparr>Id' = ''c0ffee''\<rparr>" "example_engine (\<lambda>n. None) (\<lambda>n. Inr None)"
              Map.empty]
  by (simp add: example_defs)

text \<open>
  C5 as stated fails: on a running handle \<open>start\<close> issues a start request and an
  inspection, and the handle's \<open>ip_address\<close> changes.
\<close>

theorem start_while_running_counterexample:
  "running (self example_state) \<and>
   events example_state = [] \<and>
   events (snd (start (example_engine (\<lambda>n. None) (\<lambda>n. Inr None)) Map.empty example_state)) =
     [Start \<lparr>Id' = ''c0ffee''\<rparr>, InspectContainer ''c0ffee''] \<and>
   ip_address (self example_state) = Some ''172.17.0.2'' \<and>
   ip_address (self (snd (start (example_engine (\<lambda>n. None) (\<lambda>n. Inr None)) Map.empty
                            example_state))) = Some ''172.17.0.3''"
  by (simp add: example_defs start_run_defs)

subsection \<open>Construction\<close>





lemma has_equals_entry: "has_equals (k @ ''='' @ v)"
  by (simp add: has_equals_def)

lemma split_once_cases:
  "split_once CHR ''='' x = (if has_equals x then [fst (split_pair x), snd (split_pair x)] else [x])"
  by (simp add: split_once_def has_equals_def split_pair_def)

lemma map_add_snoc:
  "m ++ map_of (ps @ [(n, v)]) = m(n \<mapsto> v) ++ map_of ps"
  by (rule ext) (simp add: map_add_def split: option.splits)

lemma environ_loop_result:
  "environ_loop entries s =
     (if list_all has_equals entries then Inr ()
      else Inl (ValueError ''not enough values to unpack (expected 2, got 1)''),
      s\<lparr>self := (self s)\<lparr>environ :=
             environ (self s) ++ map_of (rev (map split_pair (takeWhile has_equals entries)))\<rparr>\<rparr>)"
proof (induction entries arbitrary: s)
  case Nil
  then show ?case by (simp add: ret_def)
next
  case (Cons x xs)
  show ?case
  proof (cases "has_equals x")
    case True
    obtain n v where nv: "split_pair x = (n, v)" by fastforce
    let ?s1 = "s\<lparr>self := (self s)\<lparr>environ := (environ (self s))(n \<mapsto> v)\<rparr>\<rparr>"
    have step: "environ_loop (x # xs) s = environ_loop xs ?s1"
      using True nv by (simp add: split_once_cases bnd_def modify_self_def)
    have maps: "environ (self s) ++ map_of (rev (map split_pair (takeWhile has_equals (x # xs)))) =
                (environ (self s))(n \<mapsto> v) ++ map_of (rev (map split_pair (takeWhile has_equals xs)))"
      using True nv by (simp add: map_add_snoc)
    show ?thesis
      unfolding step Cons.IH[of ?s1] maps using True by simp
  next
    case False
    then show ?thesis by (simp add: split_once_cases raise_def)
  qed
qed


lemma environ_block_result:
  "try_except (environ_from_env os_environ)
     (\<lambda>e. logger_error (''Cannot parse CTF_DOCKER_ENV variable, '' @ exn_message e)) s =
   (case os_environ ''CTF_DOCKER_ENV'' of
      None \<Rightarrow> (Inr (), s)
    | Some v \<Rightarrow>
        (Inr (),
         s\<lparr>self := (self s)\<lparr>environ :=
               environ (self s) ++
               map_of (rev (map split_pair (takeWhile has_equals (split_on CHR '','' v))))\<rparr>,
           logged_errors :=
             logged_errors s @
             (if list_all has_equals (split_on CHR '','' v) then []
              else [''Cannot parse CTF_DOCKER_ENV variable, '' @
                    ''not enough values to unpack (expected 2, got 1)''])\<rparr>))"
  by (simp add: environ_from_env_def environ_loop_result try_except_def ret_def logger_error_def
        split: option.splits)


lemma Container_init_volumes:
  "\<exists>s'. Container_init (os_environ(''CTF_DOCKER_VOLUMES'' \<mapsto> v)) i n r od so (Some vs) ep kw s =
          (Inr (), s') \<and>
        volumes (self s') = None \<and>
        ''Cannot parse CTF_DOCKER_VOLUME variable NoneType object has no attribute extend''
          \<in> set (logged_errors s')"
proof -
  let ?os = "os_environ(''CTF_DOCKER_VOLUMES'' \<mapsto> v)"
  let ?s0 = "s\<lparr>self := \<lparr>image_id = i, container = None, name = n, ip_address = None,
             output_dir = od, save_output = so,
             remove_image = r, kwargs = kw, running = False,
             volumes = Some vs, environ = Map.empty, entrypoint = ep\<rparr>\<rparr>"
  let ?s1 = "?s0\<lparr>self := (self ?s0)\<lparr>volumes := None\<rparr>,
                 logged_errors := logged_errors s @
                   [''Cannot parse CTF_DOCKER_VOLUME variable NoneType object has no attribute extend'']\<rparr>"
  have s1: "try_except (volumes_from_env ?os)
            (\<lambda>e. logger_error (''Cannot parse CTF_DOCKER_VOLUME variable '' @ exn_message e)) ?s0 =
          (Inr (), ?s1)"
    by (simp add: volumes_from_env_def action_defs)
  have eq: "Container_init ?os i n r od so (Some vs) ep kw s =
        try_except (environ_from_env ?os)
          (\<lambda>e. logger_error (''Cannot parse CTF_DOCKER_ENV variable, '' @ exn_message e)) ?s1"
    using s1 by (simp add: Container_init_def bnd_def modify_self_def)
  show ?thesis
    unfolding eq environ_block_result by (simp split: option.splits)
qed

text \<open>
  C1. Whenever \<open>CTF_DOCKER_VOLUMES\<close> is set and the constructor is given a list of
  volumes, construction returns with \<open>self.volumes\<close> bound to \<open>None\<close>: line 69 replaces
  the explicit list by \<open>None\<close>, \<open>extend\<close> raises, and the handler logs the exception.
  Neither the explicit entries nor the entries of the variable are kept.
\<close>

theorem init_loses_explicit_volumes:
  "fst (Container_init (os_environ(''CTF_DOCKER_VOLUMES'' \<mapsto> v)) i n r od so (Some vs) ep kw s) =
     Inr () \<and>
   volumes (self (snd (Container_init (os_environ(''CTF_DOCKER_VOLUMES'' \<mapsto> v)) i n r od so
                         (Some vs) ep kw s))) = None \<and>
   ''Cannot parse CTF_DOCKER_VOLUME variable NoneType object has no attribute extend''
     \<in> set (logged_errors (snd (Container_init (os_environ(''CTF_DOCKER_VOLUMES'' \<mapsto> v)) i n r
                                   od so (Some vs) ep kw s)))"
  using Container_init_volumes[of os_environ v i n r od so vs ep kw s] by auto






end
